theory Spec2Isabelle
  imports Main "HOL-Library.Sublist"
begin

section \<open>Text and the regular expressions of the SQL editor\<close>

text \<open>
  A text is the list of its code units; a \<^typ>\<open>char\<close> stands for a code unit below 256.
  The character classes are those of the regular expressions in \<^verbatim>\<open>SqlEditor\<close>:
  \<^verbatim>\<open>\s\<close> (which is also what \<^verbatim>\<open>String.prototype.trim\<close> strips), \<^verbatim>\<open>\w\<close>,
  \<^verbatim>\<open>["'`]\<close>, \<^verbatim>\<open>[^\n]\<close> and \<^verbatim>\<open>[^"'`\s]\<close>.
\<close>

definition isSpace :: "char \<Rightarrow> bool" where
  "isSpace c = (c \<in> {CHR 0x09, CHR 0x0A, CHR 0x0B, CHR 0x0C, CHR 0x0D, CHR 0x20, CHR 0xA0})"

definition isUpperAscii :: "char \<Rightarrow> bool" where
  "isUpperAscii c = (65 \<le> (of_char c :: nat) \<and> (of_char c :: nat) \<le> 90)"

definition isLowerAscii :: "char \<Rightarrow> bool" where
  "isLowerAscii c = (97 \<le> (of_char c :: nat) \<and> (of_char c :: nat) \<le> 122)"

definition isDigit :: "char \<Rightarrow> bool" where
  "isDigit c = (48 \<le> (of_char c :: nat) \<and> (of_char c :: nat) \<le> 57)"

definition isWord :: "char \<Rightarrow> bool" where
  "isWord c = (isUpperAscii c \<or> isLowerAscii c \<or> isDigit c \<or> c = CHR ''_'')"

definition isQuote :: "char \<Rightarrow> bool" where
  "isQuote c = (c \<in> {CHR 0x22, CHR 0x27, CHR 0x60})"

datatype cclass = Space | Word | Quote | NotNewline | NotQuoteSpace

fun inClass :: "cclass \<Rightarrow> char \<Rightarrow> bool" where
  "inClass Space c = isSpace c"
| "inClass Word c = isWord c"
| "inClass Quote c = isQuote c"
| "inClass NotNewline c = (c \<noteq> CHR 0x0A)"
| "inClass NotQuoteSpace c = (\<not> isQuote c \<and> \<not> isSpace c)"

text \<open>
  Under the \<^verbatim>\<open>i\<close> flag a pattern character and a text character match when their
  canonical (upper-case) forms agree; the patterns hold ASCII characters only, so only the
  ASCII letters fold.
\<close>

definition toUpperAscii :: "char \<Rightarrow> char" where
  "toUpperAscii c = (if isLowerAscii c then char_of ((of_char c :: nat) - 32) else c)"

definition chEq :: "bool \<Rightarrow> char \<Rightarrow> char \<Rightarrow> bool" where
  "chEq ignoreCase p c = (if ignoreCase then toUpperAscii p = toUpperAscii c else p = c)"

text \<open>
  \<^verbatim>\<open>toLowerCase\<close> on code units below 256: the ASCII capitals and the Latin-1 capitals
  (0xC0 to 0xDE without the multiplication sign 0xD7) move up by 32.
\<close>

definition toLowerChar :: "char \<Rightarrow> char" where
  "toLowerChar c =
     (let n = (of_char c :: nat)
      in if (65 \<le> n \<and> n \<le> 90) \<or> (192 \<le> n \<and> n \<le> 222 \<and> n \<noteq> 215)
         then char_of (n + 32) else c)"

definition toLowerCase :: "string \<Rightarrow> string" where
  "toLowerCase s = map toLowerChar s"

definition trim :: "string \<Rightarrow> string" where
  "trim s = rev (dropWhile isSpace (rev (dropWhile isSpace s)))"

definition startsWith :: "string \<Rightarrow> string \<Rightarrow> bool" where
  "startsWith s p = prefix p s"

fun includesStr :: "string \<Rightarrow> string \<Rightarrow> bool" where
  "includesStr [] p = (p = [])"
| "includesStr (c # cs) p = (prefix p (c # cs) \<or> includesStr cs p)"

subsection \<open>A backtracking matcher for the pattern forms the editor uses\<close>

text \<open>
  The patterns of the editor are sequences of literals, single characters of a class,
  greedy \<^verbatim>\<open>+\<close> and \<^verbatim>\<open>*\<close> over a class, an optional character, one optional
  non-capturing group, one capturing group and one negative lookahead. A match attempt
  at a position yields every way to match, in the order in which a backtracking engine
  tries them (greedy first); the engine's answer is the first one.
\<close>

datatype atom = Lit string | One cclass | Plus cclass | Star cclass | OptOne cclass

datatype item = A atom | Opt "atom list" | Cap "atom list" | NotAhead "atom list"

fun litMatch :: "bool \<Rightarrow> string \<Rightarrow> string \<Rightarrow> string option" where
  "litMatch ic [] s = Some s"
| "litMatch ic (p # ps) [] = None"
| "litMatch ic (p # ps) (c # cs) = (if chEq ic p c then litMatch ic ps cs else None)"

text \<open>The texts left after a greedy run over a class: the longest run first, no run last.\<close>

fun runs :: "cclass \<Rightarrow> string \<Rightarrow> string list" where
  "runs k [] = [[]]"
| "runs k (c # cs) = (if inClass k c then runs k cs @ [c # cs] else [c # cs])"

fun matchAtom :: "bool \<Rightarrow> atom \<Rightarrow> string \<Rightarrow> string list" where
  "matchAtom ic (Lit l) s = (case litMatch ic l s of None \<Rightarrow> [] | Some r \<Rightarrow> [r])"
| "matchAtom ic (One k) s = (case s of [] \<Rightarrow> [] | c # cs \<Rightarrow> if inClass k c then [cs] else [])"
| "matchAtom ic (Plus k) s = butlast (runs k s)"
| "matchAtom ic (Star k) s = runs k s"
| "matchAtom ic (OptOne k) s =
     (case s of [] \<Rightarrow> [s] | c # cs \<Rightarrow> if inClass k c then [cs, s] else [s])"

fun matchAtoms :: "bool \<Rightarrow> atom list \<Rightarrow> string \<Rightarrow> string list" where
  "matchAtoms ic [] s = [s]"
| "matchAtoms ic (a # as) s = concat (map (matchAtoms ic as) (matchAtom ic a s))"

text \<open>
  A result is the text left after the match and the text of the capturing group
  (\<^verbatim>\<open>$1\<close>), when the group took part.
\<close>

fun matchItems :: "bool \<Rightarrow> item list \<Rightarrow> string \<Rightarrow> string option \<Rightarrow> (string \<times> string option) list" where
  "matchItems ic [] s cap = [(s, cap)]"
| "matchItems ic (A a # r) s cap =
     concat (map (\<lambda>s'. matchItems ic r s' cap) (matchAtom ic a s))"
| "matchItems ic (Opt as # r) s cap =
     concat (map (\<lambda>s'. matchItems ic r s' cap) (matchAtoms ic as s @ [s]))"
| "matchItems ic (Cap as # r) s cap =
     concat (map (\<lambda>s'. matchItems ic r s' (Some (take (length s - length s') s)))
                 (matchAtoms ic as s))"
| "matchItems ic (NotAhead as # r) s cap =
     (if matchAtoms ic as s = [] then matchItems ic r s cap else [])"

record regex =
  items :: "item list"
  ignoreCase :: bool

definition matchHere :: "regex \<Rightarrow> string \<Rightarrow> (string \<times> string option) option" where
  "matchHere rx s =
     (case matchItems (ignoreCase rx) (items rx) s None of [] \<Rightarrow> None | m # _ \<Rightarrow> Some m)"

text \<open>\<^verbatim>\<open>RegExp.prototype.exec\<close> without the \<^verbatim>\<open>g\<close> flag: the first position with a match.\<close>

fun exec :: "regex \<Rightarrow> string \<Rightarrow> (string \<times> string option) option" where
  "exec rx [] = matchHere rx []"
| "exec rx (c # cs) = (case matchHere rx (c # cs) of Some m \<Rightarrow> Some m | None \<Rightarrow> exec rx cs)"

text \<open>
  \<^verbatim>\<open>String.prototype.replace\<close> with a \<^verbatim>\<open>g\<close> pattern: matches are found left to right
  and do not overlap; after an empty match the scan copies one character and goes on.
\<close>

function replaceAll :: "regex \<Rightarrow> (string option \<Rightarrow> string) \<Rightarrow> string \<Rightarrow> string" where
  "replaceAll rx repl s =
     (case matchHere rx s of
        Some (rest, cap) \<Rightarrow>
          if length rest < length s then repl cap @ replaceAll rx repl rest
          else (case s of [] \<Rightarrow> repl cap | c # cs \<Rightarrow> repl cap @ c # replaceAll rx repl cs)
      | None \<Rightarrow> (case s of [] \<Rightarrow> [] | c # cs \<Rightarrow> c # replaceAll rx repl cs))"
  by pat_completeness auto
termination
  by (relation "measure (\<lambda>(rx, repl, s). length s)") auto

text \<open>
  \<^verbatim>\<open>String.prototype.split\<close> with a pattern that has one capturing group: the pieces
  between the matches, with the captured text of each match spliced in between. No match
  is tried at the end of the text, and a match that ends where the current piece began
  does not split.
\<close>

function splitAux :: "regex \<Rightarrow> string \<Rightarrow> string \<Rightarrow> string list" where
  "splitAux rx cur s =
     (case s of
        [] \<Rightarrow> [cur]
      | c # cs \<Rightarrow>
          (case matchHere rx s of
             Some (rest, cap) \<Rightarrow>
               if length rest < length s
               then cur # (case cap of None \<Rightarrow> [] | Some t \<Rightarrow> t) # splitAux rx [] rest
               else if cur = [] then splitAux rx [c] cs
               else cur # (case cap of None \<Rightarrow> [] | Some t \<Rightarrow> t) # splitAux rx [c] cs
           | None \<Rightarrow> splitAux rx (cur @ [c]) cs))"
  by pat_completeness auto
termination
  by (relation "measure (\<lambda>(rx, cur, s). length s)") auto

definition splitRegex :: "regex \<Rightarrow> string \<Rightarrow> string list" where
  "splitRegex rx s = splitAux rx [] s"

text \<open>\<^verbatim>\<open>split('\n')\<close> and \<^verbatim>\<open>join('\n')\<close>.\<close>

fun splitLinesAux :: "string \<Rightarrow> string \<Rightarrow> string list" where
  "splitLinesAux cur [] = [cur]"
| "splitLinesAux cur (c # cs) =
     (if c = CHR 0x0A then cur # splitLinesAux [] cs else splitLinesAux (cur @ [c]) cs)"

definition splitLines :: "string \<Rightarrow> string list" where
  "splitLines s = splitLinesAux [] s"

fun joinLines :: "string list \<Rightarrow> string" where
  "joinLines [] = []"
| "joinLines [l] = l"
| "joinLines (l # ls) = l @ CHR 0x0A # joinLines ls"

section \<open>The repair passes of the SQL editor\<close>

subsection \<open>ensureTableNamesAreQuoted\<close>

definition twoWords :: "item" where
  "twoWords = Cap [Plus Word, Plus Space, Plus Word]"

definition noQuoteAhead :: "item" where
  "noQuoteAhead = NotAhead [Star Space, One Quote]"

definition createTableRegex :: regex where
  "createTableRegex =
     \<lparr>items = [A (Lit ''CREATE''), A (Plus Space), A (Lit ''TABLE''), A (Plus Space),
               Opt [Lit ''IF'', Plus Space, Lit ''NOT'', Plus Space, Lit ''EXISTS'', Plus Space],
               twoWords, noQuoteAhead, A (Star Space), A (Lit ''('')],
      ignoreCase = True\<rparr>"

definition alterTableRegex :: regex where
  "alterTableRegex =
     \<lparr>items = [A (Lit ''ALTER''), A (Plus Space), A (Lit ''TABLE''), A (Plus Space),
               twoWords, noQuoteAhead, A (Plus Space)],
      ignoreCase = True\<rparr>"

definition referencesRegex :: regex where
  "referencesRegex =
     \<lparr>items = [A (Lit ''REFERENCES''), A (Plus Space),
               twoWords, noQuoteAhead, A (Star Space), A (Lit ''('')],
      ignoreCase = True\<rparr>"

text \<open>The replacement texts; an unset \<^verbatim>\<open>$1\<close> is the empty text.\<close>

definition group1 :: "string option \<Rightarrow> string" where
  "group1 cap = (case cap of None \<Rightarrow> [] | Some t \<Rightarrow> t)"

definition createTableRepl :: "string option \<Rightarrow> string" where
  \<open>createTableRepl cap = ''CREATE TABLE "'' @ group1 cap @ ''" (''\<close>

definition alterTableRepl :: "string option \<Rightarrow> string" where
  \<open>alterTableRepl cap = ''ALTER TABLE "'' @ group1 cap @ ''" ''\<close>

definition referencesRepl :: "string option \<Rightarrow> string" where
  \<open>referencesRepl cap = ''REFERENCES "'' @ group1 cap @ ''" (''\<close>

definition ensureTableNamesAreQuoted :: "string \<Rightarrow> string" where
  "ensureTableNamesAreQuoted sql =
     (let result = replaceAll createTableRegex createTableRepl sql;
          result = replaceAll alterTableRegex alterTableRepl result;
          result = replaceAll referencesRegex referencesRepl result
      in result)"

subsection \<open>removeDuplicateAlterTableStatements\<close>

definition commentRegex :: regex where
  "commentRegex = \<lparr>items = [Cap [Lit ''-- '', Plus NotNewline]], ignoreCase = False\<rparr>"

definition addConstraintRegex :: regex where
  "addConstraintRegex =
     \<lparr>items = [A (Lit ''ADD''), A (Plus Space), A (Lit ''CONSTRAINT''), A (Plus Space),
               A (OptOne Quote), Cap [Plus NotQuoteSpace], A (OptOne Quote)],
      ignoreCase = True\<rparr>"

definition isAlterConstraintLine :: "string \<Rightarrow> bool" where
  "isAlterConstraintLine line =
     (exec addConstraintRegex line \<noteq> None \<and> startsWith (trim line) ''ALTER TABLE'')"

text \<open>
  The loop over the lines of one section. \<open>seen\<close> is the set \<^verbatim>\<open>uniqueConstraints\<close>,
  which is shared by all sections of one call; the result is the set afterwards and the
  lines kept.
\<close>

fun dedupLines :: "string list \<Rightarrow> string list \<Rightarrow> string list \<times> string list" where
  "dedupLines seen [] = (seen, [])"
| "dedupLines seen (line # ls) =
     (if isAlterConstraintLine line
      then (if trim line \<notin> set seen
            then (let (seen', kept) = dedupLines (seen @ [trim line]) ls in (seen', line # kept))
            else dedupLines seen ls)
      else (let (seen', kept) = dedupLines seen ls in (seen', line # kept)))"

definition processSection :: "string list \<Rightarrow> string \<Rightarrow> string list \<times> string" where
  "processSection seen section =
     (if \<not> includesStr section ''Foreign Key Constraints'' then (seen, section)
      else (let (seen', uniqueLines) = dedupLines seen (splitLines section)
            in (seen', joinLines uniqueLines)))"

fun processSections :: "string list \<Rightarrow> string list \<Rightarrow> string list" where
  "processSections seen [] = []"
| "processSections seen (section # rest) =
     (let (seen', out) = processSection seen section in out # processSections seen' rest)"

definition removeDuplicateAlterTableStatements :: "string \<Rightarrow> string" where
  "removeDuplicateAlterTableStatements sql =
     concat (processSections [] (splitRegex commentRegex sql))"

subsection \<open>The repair pipeline\<close>

text \<open>
  The three passes in the order of the \<^verbatim>\<open>if (!isLiveUpdate)\<close> block of
  \<^verbatim>\<open>handleApplySqlChangesInternal\<close>. \<open>fixCommonSqlIssues\<close> is imported by the editor
  and is a parameter here.
\<close>

definition repair :: "(string \<Rightarrow> string) \<Rightarrow> string \<Rightarrow> string" where
  "repair fixCommonSqlIssues sql =
     removeDuplicateAlterTableStatements (fixCommonSqlIssues (ensureTableNamesAreQuoted sql))"

section \<open>The schema graph\<close>

text \<open>
  Nodes are the objects the editor keeps in its store. Every property that the source
  reads through \<^verbatim>\<open>?.\<close> or tests for truthiness may be absent, so it is an option here.
  A position is a pair of coordinates and a style a list of property settings; the
  controller only copies them.
\<close>

record column =
  title :: "string option"
  ctype :: "string option"
  constraints :: "string list option"
  column_id :: "string option"

record nodeData =
  label :: "string option"
  color :: "string option"
  schema :: "column list option"

record node =
  node_id :: string
  position :: "(int \<times> int) option"
  style :: "(string \<times> string) list option"
  data :: "nodeData option"

record enumType =
  name :: string
  enumValues :: "string list"

record sqlSettings =
  caseSensitiveIdentifiers :: bool
  useInlineConstraints :: bool

definition defaultSettings :: sqlSettings where
  "defaultSettings = \<lparr>caseSensitiveIdentifiers = False, useInlineConstraints = True\<rparr>"

text \<open>Truthiness of an optional string: present and not empty.\<close>

definition truthy :: "string option \<Rightarrow> bool" where
  "truthy v = (case v of None \<Rightarrow> False | Some t \<Rightarrow> t \<noteq> [])"

definition labelOf :: "node \<Rightarrow> string option" where
  "labelOf n = (case data n of None \<Rightarrow> None | Some d \<Rightarrow> label d)"

definition colorOf :: "node \<Rightarrow> string option" where
  "colorOf n = (case data n of None \<Rightarrow> None | Some d \<Rightarrow> color d)"

definition schemaOf :: "node \<Rightarrow> column list option" where
  "schemaOf n = (case data n of None \<Rightarrow> None | Some d \<Rightarrow> schema d)"

subsection \<open>Preserving the layout of the prior graph\<close>

text \<open>
  The body of the \<^verbatim>\<open>parsedSchema.nodes.map\<close> callback in
  \<^verbatim>\<open>handleApplySqlChangesInternal\<close>; \<open>olds\<close> is \<^verbatim>\<open>schema.nodes\<close>.
\<close>

definition sameLabel :: "node \<Rightarrow> node \<Rightarrow> bool" where
  "sameLabel newNode n =
     (truthy (labelOf n) \<and> truthy (labelOf newNode) \<and>
      map_option toLowerCase (labelOf n) = map_option toLowerCase (labelOf newNode))"

definition nodeToPreserve :: "node list \<Rightarrow> node \<Rightarrow> node option" where
  "nodeToPreserve olds newNode =
     (let existingNode = List.find (\<lambda>n. node_id n = node_id newNode) olds;
          existingNodeByLabel =
            (if existingNode = None then List.find (sameLabel newNode) olds else None)
      in (case existingNode of Some n \<Rightarrow> Some n | None \<Rightarrow> existingNodeByLabel))"

definition emptyData :: nodeData where
  "emptyData = \<lparr>label = None, color = None, schema = None\<rparr>"

definition preserveNode :: "node list \<Rightarrow> node \<Rightarrow> node" where
  "preserveNode olds newNode =
     (case nodeToPreserve olds newNode of
        None \<Rightarrow> newNode
      | Some old \<Rightarrow>
          (case position old of
             None \<Rightarrow> newNode
           | Some p \<Rightarrow>
               newNode\<lparr>position := Some p,
                       style := style old,
                       data := Some ((case data newNode of None \<Rightarrow> emptyData | Some d \<Rightarrow> d)
                                 \<lparr>color := (if truthy (colorOf old) then colorOf old
                                            else colorOf newNode)\<rparr>)\<rparr>))"

section \<open>The SQL editor as a state machine\<close>

text \<open>
  The state of \<^verbatim>\<open>SqlEditor\<close>: the part of the schema store it reads and writes
  (\<open>nodes\<close>, \<open>edges\<close>, \<open>enumTypes\<close>, \<open>code\<close>, \<open>settings\<close>), its own React state, and the
  notifications it has raised. Edges are opaque to the editor. The store holds arrays for
  nodes, edges and enum types.
\<close>

datatype toast = ToastSuccess string | ToastInfo string string

record 'e editor =
  nodes :: "node list"
  edges :: "'e list"
  enumTypes :: "enumType list"
  code :: string
  settings :: "sqlSettings option"
  appliedSql :: string
  dbType :: string
  sqlContent :: string
  editableSql :: string
  isEditing :: bool
  error :: "string option"
  liveEditMode :: bool
  toasts :: "toast list"

record 'e parsedSchema =
  parsedNodes :: "node list"
  parsedEdges :: "'e list"
  parsedEnumTypes :: "enumType list option"

text \<open>
  Three functions the editor imports are taken as parameters:
  \<^item> \<open>generateSql\<close>, from the dialect, the graph and the settings to the DDL text;
  \<^item> \<open>fixCommonSqlIssues\<close>, from text to text;
  \<^item> \<open>parseSqlToSchema\<close>, which throws an error with a message (\<open>Inl\<close>), returns a
    falsy value (\<open>Inr None\<close>) or returns a parsed schema.
\<close>

type_synonym 'e generator =
  "string \<Rightarrow> node list \<Rightarrow> 'e list \<Rightarrow> enumType list \<Rightarrow> sqlSettings \<Rightarrow> string"

type_synonym 'e parser = "string \<Rightarrow> string + 'e parsedSchema option"

definition settingsOf :: "'e editor \<Rightarrow> sqlSettings" where
  "settingsOf s = (case settings s of None \<Rightarrow> defaultSettings | Some x \<Rightarrow> x)"

definition generateCurrent :: "'e generator \<Rightarrow> 'e editor \<Rightarrow> string" where
  "generateCurrent generateSql s =
     generateSql (dbType s) (nodes s) (edges s) (enumTypes s) (settingsOf s)"

definition handleUpdateSchema ::
  "node list \<Rightarrow> 'e list \<Rightarrow> enumType list \<Rightarrow> 'e editor \<Rightarrow> 'e editor" where
  "handleUpdateSchema newNodes newEdges newEnumTypes s =
     s\<lparr>nodes := newNodes,
       edges := newEdges,
       enumTypes := (if newEnumTypes \<noteq> [] then newEnumTypes else enumTypes s),
       code := editableSql s\<rparr>"

text \<open>
  The inner \<^verbatim>\<open>catch\<close> is the \<open>Inl\<close> branch of the parser's result. The outer
  \<^verbatim>\<open>catch\<close> guards the repair passes; the two passes defined above do not throw and
  \<open>fixCommonSqlIssues\<close> is a total function here, so it has no branch.
\<close>

definition handleApplySqlChangesInternal ::
  "(string \<Rightarrow> string) \<Rightarrow> 'e parser \<Rightarrow> 'e editor \<Rightarrow> string \<Rightarrow> bool \<Rightarrow> 'e editor" where
  "handleApplySqlChangesInternal fixCommonSqlIssues parseSqlToSchema s sql isLiveUpdate =
     (let s0 = s\<lparr>error := None\<rparr>
      in if trim sql = [] then s0\<lparr>error := Some ''SQL cannot be empty''\<rparr>
         else
           (let processedSql = (if \<not> isLiveUpdate then repair fixCommonSqlIssues sql else sql)
            in (case parseSqlToSchema processedSql of
                  Inl message \<Rightarrow> s0\<lparr>error := Some (''Failed to parse SQL: '' @ message)\<rparr>
                | Inr None \<Rightarrow> s0
                | Inr (Some parsed) \<Rightarrow>
                    (let preservedNodes = map (preserveNode (nodes s)) (parsedNodes parsed);
                         s1 = handleUpdateSchema preservedNodes (parsedEdges parsed)
                                (case parsedEnumTypes parsed of None \<Rightarrow> [] | Some ts \<Rightarrow> ts) s0;
                         s2 = s1\<lparr>appliedSql := processedSql\<rparr>
                     in if \<not> isLiveUpdate
                        then s2\<lparr>toasts := toasts s2 @ [ToastSuccess ''SQL changes applied successfully''],
                                isEditing := False\<rparr>
                        else s2))))"

definition handleApplySqlChanges ::
  "(string \<Rightarrow> string) \<Rightarrow> 'e parser \<Rightarrow> 'e editor \<Rightarrow> 'e editor" where
  "handleApplySqlChanges fixCommonSqlIssues parseSqlToSchema s =
     handleApplySqlChangesInternal fixCommonSqlIssues parseSqlToSchema s (editableSql s) False"

definition cancelEdit :: "'e editor \<Rightarrow> 'e editor" where
  "cancelEdit s = s\<lparr>isEditing := False, editableSql := appliedSql s, error := None\<rparr>"

subsection \<open>The effects\<close>

text \<open>
  Each effect is a function of the state of the render that triggered it. The effects of
  one render read \<open>dbType\<close>, the graph, the settings and \<open>isEditing\<close>, and write
  \<open>sqlContent\<close>, \<open>appliedSql\<close>, \<open>editableSql\<close> and \<open>code\<close>, so running them one after the
  other in source order gives the state after the render.
\<close>

definition dbTypeEffect :: "'e generator \<Rightarrow> 'e editor \<Rightarrow> 'e editor" where
  "dbTypeEffect generateSql s =
     (let newSql = generateCurrent generateSql s;
          s1 = s\<lparr>sqlContent := newSql\<rparr>
      in if \<not> isEditing s
         then s1\<lparr>editableSql := newSql, appliedSql := newSql, code := newSql\<rparr>
         else s1)"

definition settingsEffect :: "'e generator \<Rightarrow> 'e editor \<Rightarrow> 'e editor" where
  "settingsEffect generateSql s =
     (if \<not> isEditing s
      then (let newSql = generateCurrent generateSql s
            in s\<lparr>sqlContent := newSql, appliedSql := newSql, editableSql := newSql,
                 code := newSql\<rparr>)
      else s)"

definition regenerateEffect :: "'e generator \<Rightarrow> 'e editor \<Rightarrow> 'e editor" where
  "regenerateEffect generateSql s =
     (let newSql = generateCurrent generateSql s;
          s1 = s\<lparr>sqlContent := newSql, appliedSql := newSql\<rparr>;
          s2 = (if \<not> isEditing s then s1\<lparr>editableSql := newSql\<rparr> else s1)
      in s2\<lparr>code := newSql\<rparr>)"

definition liveUpdateEffect ::
  "(string \<Rightarrow> string) \<Rightarrow> 'e parser \<Rightarrow> 'e editor \<Rightarrow> 'e editor" where
  "liveUpdateEffect fixCommonSqlIssues parseSqlToSchema s =
     (if isEditing s \<and> liveEditMode s \<and> editableSql s \<noteq> []
      then handleApplySqlChangesInternal fixCommonSqlIssues parseSqlToSchema s (editableSql s) True
      else s)"

subsection \<open>The handlers and the events of the editor\<close>

definition applyHint :: toast where
  "applyHint = ToastInfo ''Apply your changes to see updates with new settings''
                         ''Current edits are preserved until you apply them''"

definition handleToggleCaseSensitive :: "'e editor \<Rightarrow> 'e editor" where
  "handleToggleCaseSensitive s =
     (let st = settingsOf s;
          s1 = s\<lparr>settings := Some (st\<lparr>caseSensitiveIdentifiers := \<not> caseSensitiveIdentifiers st\<rparr>)\<rparr>
      in if isEditing s then s1\<lparr>toasts := toasts s1 @ [applyHint]\<rparr> else s1)"

definition handleToggleInlineConstraints :: "'e editor \<Rightarrow> 'e editor" where
  "handleToggleInlineConstraints s =
     (let st = settingsOf s;
          s1 = s\<lparr>settings := Some (st\<lparr>useInlineConstraints := \<not> useInlineConstraints st\<rparr>)\<rparr>
      in if isEditing s then s1\<lparr>toasts := toasts s1 @ [applyHint]\<rparr> else s1)"

text \<open>
  An event is its handler followed by the effects whose dependencies the handler changed:
  a settings toggle changes one of the two flags, so the settings effect and the
  regeneration effect run; a new dialect runs the dialect effect and the regeneration
  effect; a change of \<open>editableSql\<close>, \<open>liveEditMode\<close> or \<open>isEditing\<close> runs the live-update
  effect. The effects of a settings or dialect change touch \<open>editableSql\<close> only when
  \<open>isEditing\<close> is false, where the live-update effect does nothing.
\<close>

definition toggleCaseSensitive :: "'e generator \<Rightarrow> 'e editor \<Rightarrow> 'e editor" where
  "toggleCaseSensitive generateSql s =
     regenerateEffect generateSql (settingsEffect generateSql (handleToggleCaseSensitive s))"

definition toggleInlineConstraints :: "'e generator \<Rightarrow> 'e editor \<Rightarrow> 'e editor" where
  "toggleInlineConstraints generateSql s =
     regenerateEffect generateSql (settingsEffect generateSql (handleToggleInlineConstraints s))"

definition selectDbType :: "'e generator \<Rightarrow> string \<Rightarrow> 'e editor \<Rightarrow> 'e editor" where
  "selectDbType generateSql d s =
     (if d = dbType s then s
      else regenerateEffect generateSql (dbTypeEffect generateSql (s\<lparr>dbType := d\<rparr>)))"

definition startEditing ::
  "(string \<Rightarrow> string) \<Rightarrow> 'e parser \<Rightarrow> 'e editor \<Rightarrow> 'e editor" where
  "startEditing fixCommonSqlIssues parseSqlToSchema s =
     (if isEditing s then s
      else liveUpdateEffect fixCommonSqlIssues parseSqlToSchema (s\<lparr>isEditing := True\<rparr>))"

definition changeEditableSql ::
  "(string \<Rightarrow> string) \<Rightarrow> 'e parser \<Rightarrow> string \<Rightarrow> 'e editor \<Rightarrow> 'e editor" where
  "changeEditableSql fixCommonSqlIssues parseSqlToSchema text s =
     (if text = editableSql s then s
      else liveUpdateEffect fixCommonSqlIssues parseSqlToSchema (s\<lparr>editableSql := text\<rparr>))"

definition setLiveEditMode ::
  "(string \<Rightarrow> string) \<Rightarrow> 'e parser \<Rightarrow> bool \<Rightarrow> 'e editor \<Rightarrow> 'e editor" where
  "setLiveEditMode fixCommonSqlIssues parseSqlToSchema b s =
     (if b = liveEditMode s then s
      else liveUpdateEffect fixCommonSqlIssues parseSqlToSchema (s\<lparr>liveEditMode := b\<rparr>))"

section \<open>The column editor of the schema sidebar\<close>

text \<open>
  \<^verbatim>\<open>updateColumn\<close> of the sidebar that receives the node list. The result is the array
  handed to \<^verbatim>\<open>onUpdateNode\<close>; an assignment past the end of an array leaves holes
  (\<open>None\<close>). The sidebar calls it with the fields \<^verbatim>\<open>'title'\<close> and \<^verbatim>\<open>'type'\<close>.
  Reading \<^verbatim>\<open>selectedNode.data.schema\<close> throws when the node has no data or no schema.
\<close>

datatype colField = FTitle | FType

datatype updateResult = NoUpdate | Threw | Updated "column option list"

function showNat :: "nat \<Rightarrow> string" where
  "showNat n =
     (if n < 10 then [char_of (48 + n)] else showNat (n div 10) @ [char_of (48 + n mod 10)])"
  by pat_completeness auto
termination
  by (relation "measure id") auto

definition emptyColumn :: column where
  "emptyColumn = \<lparr>title = None, ctype = None, constraints = None, column_id = None\<rparr>"

definition setField :: "colField \<Rightarrow> string \<Rightarrow> column \<Rightarrow> column" where
  "setField field v c = (case field of FTitle \<Rightarrow> c\<lparr>title := Some v\<rparr> | FType \<Rightarrow> c\<lparr>ctype := Some v\<rparr>)"

definition assignAt :: "nat \<Rightarrow> 'a \<Rightarrow> 'a option list \<Rightarrow> 'a option list" where
  "assignAt index v xs =
     (if index < length xs then xs[index := Some v]
      else xs @ replicate (index - length xs) None @ [Some v])"

definition existingTitles :: "nat \<Rightarrow> column list \<Rightarrow> string option list" where
  "existingTitles index cs =
     map fst (filter (\<lambda>(t, i). i \<noteq> index) (zip (map title cs) [0..<length cs]))"

definition updateColumn :: "node option \<Rightarrow> nat \<Rightarrow> colField \<Rightarrow> string \<Rightarrow> updateResult" where
  "updateColumn selectedNode index field v =
     (case selectedNode of
        None \<Rightarrow> NoUpdate
      | Some n \<Rightarrow>
          (let newSchema = (case schemaOf n of None \<Rightarrow> [] | Some cs \<Rightarrow> cs);
               element = (if index < length newSchema then newSchema ! index else emptyColumn);
               store = (\<lambda>v'. Updated (assignAt index (setField field v' element) (map Some newSchema)))
           in if field = FTitle
              then (case schemaOf n of
                      None \<Rightarrow> Threw
                    | Some cs \<Rightarrow>
                        if Some v \<in> set (existingTitles index cs)
                        then store (v @ ''_'' @ showNat index)
                        else store v)
              else store v))"

definition titlesOf :: "updateResult \<Rightarrow> string option list" where
  "titlesOf r = (case r of Updated cs \<Rightarrow> map (\<lambda>c. case c of None \<Rightarrow> None | Some x \<Rightarrow> title x) cs | _ \<Rightarrow> [])"

section \<open>Sample data\<close>

text \<open>
  A prior graph with one table \<open>Users\<close> at position \<open>(10, 20)\<close>, the same table as a
  parser returns it (fresh id, label in another case, default layout), and an editor in
  the \<open>Editing\<close> state over that graph.
\<close>

definition sampleColumn :: "string \<Rightarrow> string \<Rightarrow> column" where
  "sampleColumn t ty = \<lparr>title = Some t, ctype = Some ty, constraints = Some [], column_id = None\<rparr>"

definition usersOld :: node where
  "usersOld = \<lparr>node_id = ''t1'', position = Some (10, 20), style = Some [(''width'', ''240px'')],
      data = Some \<lparr>label = Some ''Users'', color = Some ''#ff0000'',
                   schema = Some [sampleColumn ''id'' ''uuid'']\<rparr>\<rparr>"

definition usersParsed :: node where
  "usersParsed = \<lparr>node_id = ''n1'', position = Some (0, 0), style = None,
      data = Some \<lparr>label = Some ''users'', color = None,
                   schema = Some [sampleColumn ''id'' ''uuid'', sampleColumn ''email'' ''varchar'']\<rparr>\<rparr>"

definition sampleEditor :: "unit editor" where
  "sampleEditor = \<lparr>nodes = [usersOld], edges = [], enumTypes = [], code = ''CREATE TABLE Users ();'',
      settings = Some defaultSettings, appliedSql = ''CREATE TABLE Users ();'', dbType = ''postgresql'',
      sqlContent = ''CREATE TABLE Users ();'', editableSql = ''CREATE TABLE Users (id uuid'',
      isEditing = True, error = None, liveEditMode = False, toasts = []\<rparr>"

text \<open>
  Stand-ins for the imported functions, used at concrete inputs only: a generator that
  writes one \<open>CREATE TABLE\<close> per node and follows the dialect and both settings, and a
  parser that accepts one statement with a quoted two-word table name and rejects
  everything else.
\<close>

definition quoteChar :: "string \<Rightarrow> sqlSettings \<Rightarrow> string" where
  "quoteChar d st =
     (if caseSensitiveIdentifiers st then (if d = ''mysql'' then [CHR 0x60] else [CHR 0x22]) else [])"

definition sampleGenerateSql :: "unit generator" where
  "sampleGenerateSql d ns es ts st =
     concat (map (\<lambda>n. ''CREATE TABLE '' @ quoteChar d st
                        @ (case labelOf n of None \<Rightarrow> [] | Some l \<Rightarrow> l)
                        @ quoteChar d st @ '' ();'') ns)
     @ (if useInlineConstraints st then [] else CHR 0x0A # ''-- Foreign Key Constraints'')"

definition cleanEditor :: "unit editor" where
  "cleanEditor = sampleEditor\<lparr>isEditing := False, editableSql := ''CREATE TABLE Users ();''\<rparr>"

definition liveEditor :: "unit editor" where
  "liveEditor = sampleEditor\<lparr>liveEditMode := True\<rparr>"

definition twoWordSql :: string where
  "twoWordSql = ''CREATE TABLE customer orders (id uuid);''"

definition strictParser :: "unit parser" where
  \<open>strictParser text =
     (if text = ''CREATE TABLE "customer orders" (id uuid);''
      then Inr (Some \<lparr>parsedNodes = [usersParsed], parsedEdges = [], parsedEnumTypes = None\<rparr>)
      else Inl ''syntax error near orders'')\<close>

definition brokenSql :: string where
  "brokenSql = ''CREATE TABLE Users (id uuid''"

text \<open>
  Inputs for the repair passes and the column editor: an \<open>ALTER TABLE\<close> statement on a
  table with a one-word name, a foreign-key section with the same statement twice, and a
  table whose column titles are \<open>a\<close>, \<open>b\<close> and \<open>a_1\<close>.
\<close>

definition alterOrders :: string where
  "alterOrders = ''ALTER TABLE orders ADD CONSTRAINT fk1 FOREIGN KEY (id) REFERENCES users(id);''"

definition fkHeader :: string where
  "fkHeader = ''-- Foreign Key Constraints''"

definition fkSection :: string where
  "fkSection = fkHeader @ CHR 0x0A # alterOrders @ CHR 0x0A # alterOrders"

definition threeColumns :: node where
  "threeColumns = \<lparr>node_id = ''t2'', position = Some (0, 0), style = None,
      data = Some \<lparr>label = Some ''items'', color = None,
                   schema = Some [sampleColumn ''a'' ''uuid'', sampleColumn ''b'' ''text'',
                                  sampleColumn ''a_1'' ''text'']\<rparr>\<rparr>"

text \<open>
  A text has a line comment when the comment pattern of the de-duplication pass matches
  somewhere in it. The texts below carry the marker of the foreign-key section in a block
  comment, so that the statements under it belong to a section that holds the marker.
\<close>

fun hasComment :: "string \<Rightarrow> bool" where
  "hasComment [] = False"
| "hasComment (c # cs) = (matchHere commentRegex (c # cs) \<noteq> None \<or> hasComment cs)"

definition quotedAlter :: string where
  \<open>quotedAlter = ''ALTER TABLE "orders" ADD CONSTRAINT fk1 FOREIGN KEY (id) REFERENCES users(id);''\<close>

definition blockHeader :: string where
  "blockHeader = ''/* Foreign Key Constraints */''"

definition shiftingText :: string where
  "shiftingText = joinLines [blockHeader, quotedAlter, quotedAlter @ '' -- '', quotedAlter @ ''-- end'']"

definition mergingText :: string where
  "mergingText = joinLines [blockHeader, quotedAlter, ''ALTER TABLE'', quotedAlter,
                            ''customer orders ADD CONSTRAINT fk2 FOREIGN KEY (id) REFERENCES users(id);'']"

definition shiftedOnce :: string where
  "shiftedOnce = joinLines [blockHeader, quotedAlter, quotedAlter @ '' -- -- end'']"

definition shiftedTwice :: string where
  "shiftedTwice = joinLines [blockHeader, quotedAlter @ ''-- -- end'']"

definition mergedOnce :: string where
  "mergedOnce = joinLines [blockHeader, quotedAlter, ''ALTER TABLE'',
                           ''customer orders ADD CONSTRAINT fk2 FOREIGN KEY (id) REFERENCES users(id);'']"

definition mergedTwice :: string where
  \<open>mergedTwice = joinLines [blockHeader, quotedAlter,
      ''ALTER TABLE "customer orders" ADD CONSTRAINT fk2 FOREIGN KEY (id) REFERENCES users(id);'']\<close>

text \<open>The comment pattern matches at the start of a text exactly in this case.\<close>

fun commentStart :: "string \<Rightarrow> bool" where
  "commentStart (a # b # c # x # r) = (a = CHR ''-'' \<and> b = CHR ''-'' \<and> c = CHR '' '' \<and> x \<noteq> CHR 0x0A)"
| "commentStart _ = False"

text \<open>
  Further nodes for the reconciliation: a prior table without a position, a parsed table
  with the id of the prior table \<open>Users\<close>, a parsed table \<open>orders\<close> that matches nothing,
  and a prior and a parsed table whose labels are both the empty text. The last definition
  is the clean sample editor with live editing left on.
\<close>

definition unplacedOld :: node where
  "unplacedOld = usersOld\<lparr>position := None\<rparr>"

definition sameIdParsed :: node where
  "sameIdParsed = usersParsed\<lparr>node_id := ''t1''\<rparr>"

definition ordersParsed :: node where
  "ordersParsed = \<lparr>node_id = ''n2'', position = Some (0, 0), style = None,
      data = Some \<lparr>label = Some ''orders'', color = None,
                   schema = Some [sampleColumn ''id'' ''uuid'']\<rparr>\<rparr>"

definition blankOld :: node where
  "blankOld = \<lparr>node_id = ''t3'', position = Some (10, 20), style = None,
      data = Some \<lparr>label = Some [], color = None, schema = Some []\<rparr>\<rparr>"

definition blankParsed :: node where
  "blankParsed = \<lparr>node_id = ''n3'', position = Some (0, 0), style = None,
      data = Some \<lparr>label = Some [], color = None, schema = Some []\<rparr>\<rparr>"

definition liveCleanEditor :: "unit editor" where
  "liveCleanEditor = cleanEditor\<lparr>liveEditMode := True\<rparr>"

declare splitAux.simps [simp del] replaceAll.simps [simp del] showNat.simps [simp del]

section \<open>Properties of the synchronisation engine\<close>

subsection \<open>Apply on empty input\<close>

text \<open>
  Claim C10. Applying SQL whose text is empty or only whitespace fails before repair and
  parsing: whatever the repair helper and the parser are, and in both the manual and the
  live path, the only change to the state is the error message \<open>SQL cannot be empty\<close>.
  The graph, the displayed DDL, the editable text and the editing flags are those of the
  state before.
\<close>

theorem apply_empty_sql:
  assumes "trim sql = []"
  shows "handleApplySqlChangesInternal fixCommonSqlIssues parseSqlToSchema s sql isLiveUpdate
           = s\<lparr>error := Some ''SQL cannot be empty''\<rparr>"
  using assms by (simp add: handleApplySqlChangesInternal_def)

theorem apply_empty_sql_witness:
  "trim [CHR 0x20, CHR 0x0A, CHR 0x09] = [] \<and>
   handleApplySqlChangesInternal (\<lambda>x. x) (\<lambda>x. Inr None) sampleEditor [CHR 0x20, CHR 0x0A, CHR 0x09] False
     = sampleEditor\<lparr>error := Some ''SQL cannot be empty''\<rparr>"
proof -
  have h: "trim [CHR 0x20, CHR 0x0A, CHR 0x09] = []" by code_simp
  show ?thesis using h apply_empty_sql [OF h] by simp
qed

subsection \<open>Apply when the parser fails\<close>

lemma repair_brokenSql: "repair (\<lambda>x. x) brokenSql = brokenSql"
  by code_simp

lemma repair_twoWordSql:
  \<open>repair (\<lambda>x. x) twoWordSql = ''CREATE TABLE "customer orders" (id uuid);''\<close>
  by code_simp

text \<open>
  Claim C1. When the parser throws on the text it is given (the repaired text in a manual
  apply, the raw text in a live update), the apply operation changes nothing but the
  error: nodes, edges and enum types of the committed graph, the displayed DDL
  (\<open>sqlContent\<close>), the applied SQL, the user's editable text and the editing flags are
  those of the state before, and the error is set to the parser's message behind
  \<open>Failed to parse SQL: \<close>.
\<close>

theorem apply_parse_failure:
  assumes "trim sql \<noteq> []"
    and "parseSqlToSchema (if isLiveUpdate then sql else repair fixCommonSqlIssues sql) = Inl message"
  shows "(let s' = handleApplySqlChangesInternal fixCommonSqlIssues parseSqlToSchema s sql isLiveUpdate
          in s' = s\<lparr>error := Some (''Failed to parse SQL: '' @ message)\<rparr> \<and>
             nodes s' = nodes s \<and> edges s' = edges s \<and> enumTypes s' = enumTypes s \<and>
             sqlContent s' = sqlContent s \<and> appliedSql s' = appliedSql s \<and>
             editableSql s' = editableSql s \<and> isEditing s' = isEditing s \<and>
             liveEditMode s' = liveEditMode s \<and> error s' \<noteq> None)"
  using assms by (auto simp add: handleApplySqlChangesInternal_def Let_def)

theorem apply_parse_failure_witness:
  "trim brokenSql \<noteq> [] \<and>
   strictParser (repair (\<lambda>x. x) brokenSql) = Inl ''syntax error near orders'' \<and>
   handleApplySqlChangesInternal (\<lambda>x. x) strictParser sampleEditor brokenSql False
     = sampleEditor\<lparr>error := Some ''Failed to parse SQL: syntax error near orders''\<rparr> \<and>
   isEditing (handleApplySqlChangesInternal (\<lambda>x. x) strictParser sampleEditor brokenSql False) \<and>
   nodes (handleApplySqlChangesInternal (\<lambda>x. x) strictParser sampleEditor brokenSql False)
     = [usersOld]"
proof -
  have h1: "trim brokenSql \<noteq> []" by code_simp
  have "strictParser brokenSql = Inl ''syntax error near orders''"
    by (simp add: strictParser_def brokenSql_def)
  then have h2: "strictParser (if False then brokenSql else repair (\<lambda>x. x) brokenSql)
              = Inl ''syntax error near orders''"
    by (simp add: repair_brokenSql)
  show ?thesis
    using h1 h2
      apply_parse_failure [where sql = brokenSql and parseSqlToSchema = strictParser
        and isLiveUpdate = False and fixCommonSqlIssues = "\<lambda>x. x" and s = sampleEditor, OF h1 h2]
    by (simp add: Let_def sampleEditor_def)
qed

subsection \<open>Live editing\<close>

text \<open>
  The claim that a live update runs the repair passes before parsing fails. On the text
  \<open>CREATE TABLE customer orders (id uuid);\<close>, with a parser that accepts the quoted
  two-word name only, the live update reports a parse error and leaves the graph alone,
  while a manual apply of the same text repairs it first, parses it and commits the parsed
  table.
\<close>

theorem live_update_counterexample:
  "error (changeEditableSql (\<lambda>x. x) strictParser twoWordSql liveEditor)
     = Some ''Failed to parse SQL: syntax error near orders'' \<and>
   nodes (changeEditableSql (\<lambda>x. x) strictParser twoWordSql liveEditor) = [usersOld] \<and>
   error (handleApplySqlChangesInternal (\<lambda>x. x) strictParser
            (liveEditor\<lparr>editableSql := twoWordSql\<rparr>) twoWordSql False) = None \<and>
   nodes (handleApplySqlChangesInternal (\<lambda>x. x) strictParser
            (liveEditor\<lparr>editableSql := twoWordSql\<rparr>) twoWordSql False)
     = [preserveNode [usersOld] usersParsed]"
proof -
  have t: "trim twoWordSql \<noteq> []" by code_simp
  have ne: "twoWordSql \<noteq> editableSql liveEditor" "twoWordSql \<noteq> []"
    by (simp_all add: twoWordSql_def liveEditor_def sampleEditor_def)
  have p: "strictParser twoWordSql = Inl ''syntax error near orders''"
    by (simp add: strictParser_def twoWordSql_def)
  have q: "strictParser (repair (\<lambda>x. x) twoWordSql)
             = Inr (Some \<lparr>parsedNodes = [usersParsed], parsedEdges = [], parsedEnumTypes = None\<rparr>)"
    by (simp add: repair_twoWordSql strictParser_def)
  show ?thesis
    using t ne p q
    by (simp add: changeEditableSql_def liveUpdateEffect_def handleApplySqlChangesInternal_def
        handleUpdateSchema_def Let_def liveEditor_def sampleEditor_def)
qed

text \<open>
  Claim C2, as amended. In \<open>LiveEditing\<close> a change of the editable text to a text that
  is not blank hands the raw text to the parser, with no repair pass before it. The editor
  stays in the live-editing state and the text buffer holds the new text. When the parser
  throws, only the error is set; when it returns a schema, the reconciled nodes and the
  parsed edges are committed and the raw text becomes the applied SQL. No notification is
  raised and the displayed DDL is not regenerated.
\<close>

theorem live_update_parses_raw_text:
  assumes "isEditing s" and "liveEditMode s" and "newText \<noteq> editableSql s" and "trim newText \<noteq> []"
  shows "(let s' = changeEditableSql fixCommonSqlIssues parseSqlToSchema newText s
          in isEditing s' \<and> liveEditMode s' \<and> editableSql s' = newText \<and>
             toasts s' = toasts s \<and> sqlContent s' = sqlContent s \<and>
             (case parseSqlToSchema newText of
                Inl message \<Rightarrow>
                  s' = s\<lparr>editableSql := newText, error := Some (''Failed to parse SQL: '' @ message)\<rparr>
              | Inr None \<Rightarrow> s' = s\<lparr>editableSql := newText, error := None\<rparr>
              | Inr (Some parsed) \<Rightarrow>
                  nodes s' = map (preserveNode (nodes s)) (parsedNodes parsed) \<and>
                  edges s' = parsedEdges parsed \<and>
                  code s' = newText \<and> appliedSql s' = newText \<and> error s' = None))"
proof -
  from assms(4) have "newText \<noteq> []" by (auto simp: trim_def)
  with assms show ?thesis
    by (auto simp add: changeEditableSql_def liveUpdateEffect_def
        handleApplySqlChangesInternal_def handleUpdateSchema_def Let_def
        split: sum.splits option.splits)
qed

theorem live_update_parses_raw_text_witness:
  "isEditing liveEditor \<and> liveEditMode liveEditor \<and> twoWordSql \<noteq> editableSql liveEditor \<and>
   trim twoWordSql \<noteq> [] \<and>
   changeEditableSql (\<lambda>x. x) strictParser twoWordSql liveEditor
     = liveEditor\<lparr>editableSql := twoWordSql,
                  error := Some ''Failed to parse SQL: syntax error near orders''\<rparr>"
proof -
  have h1: "isEditing liveEditor" and h2: "liveEditMode liveEditor"
    and h3: "twoWordSql \<noteq> editableSql liveEditor"
    by (simp_all add: liveEditor_def sampleEditor_def twoWordSql_def)
  have h4: "trim twoWordSql \<noteq> []" by code_simp
  have p: "strictParser twoWordSql = Inl ''syntax error near orders''"
    by (simp add: strictParser_def twoWordSql_def)
  show ?thesis
    using h1 h2 h3 h4 p
      live_update_parses_raw_text [where s = liveEditor and newText = twoWordSql
        and fixCommonSqlIssues = "\<lambda>x. x" and parseSqlToSchema = strictParser, OF h1 h2 h3 h4]
    by (simp add: Let_def)
qed

subsection \<open>Setting changes while editing\<close>

text \<open>
  The claim that a setting change made while editing regenerates neither the displayed
  DDL nor the rollback snapshot fails. In the \<open>Editing\<close> state over the sample graph both
  hold \<open>CREATE TABLE Users ();\<close>; after the case-sensitivity toggle both hold the DDL
  generated under the new setting. A change of the dialect while editing raises no
  notification.
\<close>

theorem setting_change_counterexample:
  \<open>isEditing sampleEditor \<and>
   appliedSql sampleEditor = ''CREATE TABLE Users ();'' \<and>
   sqlContent sampleEditor = ''CREATE TABLE Users ();'' \<and>
   appliedSql (toggleCaseSensitive sampleGenerateSql sampleEditor) = ''CREATE TABLE "Users" ();'' \<and>
   sqlContent (toggleCaseSensitive sampleGenerateSql sampleEditor) = ''CREATE TABLE "Users" ();'' \<and>
   isEditing (selectDbType sampleGenerateSql ''mysql'' sampleEditor) \<and>
   toasts (selectDbType sampleGenerateSql ''mysql'' sampleEditor) = []\<close>
  by (simp add: toggleCaseSensitive_def selectDbType_def regenerateEffect_def settingsEffect_def
      dbTypeEffect_def handleToggleCaseSensitive_def generateCurrent_def sampleGenerateSql_def
      sampleEditor_def settingsOf_def defaultSettings_def quoteChar_def labelOf_def usersOld_def
      Let_def)

text \<open>
  Claim C5, as amended. A setting change made while editing (live or not) keeps the
  editable text, the editing flags, the graph and the error, and the two toggles notify
  the user that the pending edits stay until applied; a change of dialect notifies nobody.
  The displayed DDL and the applied SQL are regenerated at once from the current graph
  under the new settings. The same change while not editing regenerates the displayed
  DDL, the applied SQL and the editable text from the current graph.
\<close>

theorem setting_change_keeps_pending_edits:
  "(isEditing s \<longrightarrow>
      (let s' = toggleCaseSensitive generateSql s
       in editableSql s' = editableSql s \<and> isEditing s' \<and> liveEditMode s' = liveEditMode s \<and>
          nodes s' = nodes s \<and> edges s' = edges s \<and> enumTypes s' = enumTypes s \<and>
          error s' = error s \<and> toasts s' = toasts s @ [applyHint] \<and>
          caseSensitiveIdentifiers (settingsOf s') = (\<not> caseSensitiveIdentifiers (settingsOf s)) \<and>
          sqlContent s' = generateCurrent generateSql s' \<and>
          appliedSql s' = generateCurrent generateSql s') \<and>
      (let s' = toggleInlineConstraints generateSql s
       in editableSql s' = editableSql s \<and> isEditing s' \<and> liveEditMode s' = liveEditMode s \<and>
          nodes s' = nodes s \<and> edges s' = edges s \<and> enumTypes s' = enumTypes s \<and>
          error s' = error s \<and> toasts s' = toasts s @ [applyHint] \<and>
          useInlineConstraints (settingsOf s') = (\<not> useInlineConstraints (settingsOf s)) \<and>
          sqlContent s' = generateCurrent generateSql s' \<and>
          appliedSql s' = generateCurrent generateSql s') \<and>
      (d \<noteq> dbType s \<longrightarrow>
        (let s' = selectDbType generateSql d s
         in editableSql s' = editableSql s \<and> isEditing s' \<and> liveEditMode s' = liveEditMode s \<and>
            nodes s' = nodes s \<and> edges s' = edges s \<and> enumTypes s' = enumTypes s \<and>
            error s' = error s \<and> toasts s' = toasts s \<and> dbType s' = d \<and>
            sqlContent s' = generateCurrent generateSql s' \<and>
            appliedSql s' = generateCurrent generateSql s'))) \<and>
   (\<not> isEditing s \<longrightarrow>
      (let s' = toggleCaseSensitive generateSql s
       in \<not> isEditing s' \<and> toasts s' = toasts s \<and> nodes s' = nodes s \<and>
          sqlContent s' = generateCurrent generateSql s' \<and>
          appliedSql s' = generateCurrent generateSql s' \<and>
          editableSql s' = generateCurrent generateSql s') \<and>
      (let s' = toggleInlineConstraints generateSql s
       in \<not> isEditing s' \<and> toasts s' = toasts s \<and> nodes s' = nodes s \<and>
          sqlContent s' = generateCurrent generateSql s' \<and>
          appliedSql s' = generateCurrent generateSql s' \<and>
          editableSql s' = generateCurrent generateSql s') \<and>
      (d \<noteq> dbType s \<longrightarrow>
        (let s' = selectDbType generateSql d s
         in \<not> isEditing s' \<and> toasts s' = toasts s \<and> nodes s' = nodes s \<and>
            sqlContent s' = generateCurrent generateSql s' \<and>
            appliedSql s' = generateCurrent generateSql s' \<and>
            editableSql s' = generateCurrent generateSql s')))"
  by (simp add: toggleCaseSensitive_def toggleInlineConstraints_def selectDbType_def
      regenerateEffect_def settingsEffect_def dbTypeEffect_def handleToggleCaseSensitive_def
      handleToggleInlineConstraints_def generateCurrent_def settingsOf_def Let_def)

theorem setting_change_keeps_pending_edits_witness:
  \<open>isEditing sampleEditor \<and> ''mysql'' \<noteq> dbType sampleEditor \<and>
   editableSql (toggleCaseSensitive sampleGenerateSql sampleEditor) = ''CREATE TABLE Users (id uuid'' \<and>
   toasts (toggleInlineConstraints sampleGenerateSql sampleEditor) = [applyHint] \<and>
   editableSql (selectDbType sampleGenerateSql ''mysql'' sampleEditor) = ''CREATE TABLE Users (id uuid'' \<and>
   \<not> isEditing cleanEditor \<and> ''mysql'' \<noteq> dbType cleanEditor \<and>
   editableSql (toggleCaseSensitive sampleGenerateSql cleanEditor) = ''CREATE TABLE "Users" ();'' \<and>
   sqlContent (toggleCaseSensitive sampleGenerateSql cleanEditor) = ''CREATE TABLE "Users" ();'' \<and>
   editableSql (selectDbType sampleGenerateSql ''mysql'' cleanEditor) = ''CREATE TABLE Users ();''\<close>
proof -
  have e: "isEditing sampleEditor" "''mysql'' \<noteq> dbType sampleEditor"
    "\<not> isEditing cleanEditor" "''mysql'' \<noteq> dbType cleanEditor"
    by (simp_all add: sampleEditor_def cleanEditor_def)
  have g1: \<open>generateCurrent sampleGenerateSql (toggleCaseSensitive sampleGenerateSql cleanEditor)
              = ''CREATE TABLE "Users" ();''\<close>
    by (simp add: toggleCaseSensitive_def regenerateEffect_def settingsEffect_def
      handleToggleCaseSensitive_def generateCurrent_def sampleGenerateSql_def cleanEditor_def
      sampleEditor_def settingsOf_def defaultSettings_def quoteChar_def labelOf_def usersOld_def
      Let_def)
  have g2: \<open>generateCurrent sampleGenerateSql (selectDbType sampleGenerateSql ''mysql'' cleanEditor)
              = ''CREATE TABLE Users ();''\<close>
    by (simp add: selectDbType_def regenerateEffect_def dbTypeEffect_def
      generateCurrent_def sampleGenerateSql_def cleanEditor_def
      sampleEditor_def settingsOf_def defaultSettings_def quoteChar_def labelOf_def usersOld_def
      Let_def)
  have a: "editableSql sampleEditor = ''CREATE TABLE Users (id uuid''" "toasts sampleEditor = []"
    by (simp_all add: sampleEditor_def)
  show ?thesis
    using e a g1 g2
      setting_change_keeps_pending_edits [where s = sampleEditor and generateSql = sampleGenerateSql
        and d = "''mysql''"]
      setting_change_keeps_pending_edits [where s = cleanEditor and generateSql = sampleGenerateSql
        and d = "''mysql''"]
    by (simp add: Let_def)
qed

subsection \<open>Cancelling an edit\<close>

text \<open>
  The claim that cancel restores the DDL that was current when editing began fails.
  Starting from the clean sample editor, whose DDL is \<open>CREATE TABLE Users ();\<close>, the
  user starts editing, types, toggles case-sensitive identifiers and cancels: the editable
  text is then the DDL regenerated under the new setting.
\<close>

theorem cancel_counterexample:
  \<open>\<not> isEditing cleanEditor \<and>
   sqlContent cleanEditor = ''CREATE TABLE Users ();'' \<and>
   appliedSql cleanEditor = ''CREATE TABLE Users ();'' \<and>
   editableSql (cancelEdit (toggleCaseSensitive sampleGenerateSql
                  (changeEditableSql (\<lambda>x. x) strictParser brokenSql
                     (startEditing (\<lambda>x. x) strictParser cleanEditor))))
     = ''CREATE TABLE "Users" ();''\<close>
  by (simp add: cancelEdit_def toggleCaseSensitive_def regenerateEffect_def settingsEffect_def
      handleToggleCaseSensitive_def changeEditableSql_def startEditing_def liveUpdateEffect_def
      generateCurrent_def sampleGenerateSql_def cleanEditor_def brokenSql_def
      sampleEditor_def settingsOf_def defaultSettings_def quoteChar_def labelOf_def usersOld_def
      Let_def)

lemma trim_clean: "trim ''CREATE TABLE Users ();'' \<noteq> []"
  by code_simp

text \<open>
  Claim C6, as amended. Cancel leaves the editing state, sets the editable text to the
  applied SQL as it is at that moment, clears the error and changes nothing else: the
  graph, the settings, the displayed DDL and the applied SQL stay. Entering the editing
  state takes no snapshot. With live editing off, or with an empty editable text, it sets
  the editing flag and nothing else; with live editing still on and an editable text that
  is not empty it sets the flag and runs a live update on that text, which may set an
  error or commit a parsed graph. When live editing is off and only the text changes
  between entering and cancelling, the text restored is the applied SQL at entry and the
  graph is untouched.
\<close>

theorem cancel_restores_applied_sql:
  "cancelEdit s = s\<lparr>isEditing := False, editableSql := appliedSql s, error := None\<rparr> \<and>
   (let s' = cancelEdit s
    in \<not> isEditing s' \<and> editableSql s' = appliedSql s \<and> error s' = None \<and>
       nodes s' = nodes s \<and> edges s' = edges s \<and> enumTypes s' = enumTypes s \<and>
       settings s' = settings s \<and> code s' = code s \<and>
       sqlContent s' = sqlContent s \<and> appliedSql s' = appliedSql s \<and>
       liveEditMode s' = liveEditMode s) \<and>
   (\<not> isEditing s \<and> (\<not> liveEditMode s \<or> editableSql s = []) \<longrightarrow>
      startEditing fixCommonSqlIssues parseSqlToSchema s = s\<lparr>isEditing := True\<rparr>) \<and>
   (\<not> isEditing s \<and> liveEditMode s \<and> editableSql s \<noteq> [] \<longrightarrow>
      startEditing fixCommonSqlIssues parseSqlToSchema s
        = handleApplySqlChangesInternal fixCommonSqlIssues parseSqlToSchema
            (s\<lparr>isEditing := True\<rparr>) (editableSql s) True) \<and>
   (\<not> isEditing s \<and> \<not> liveEditMode s \<longrightarrow>
      isEditing (startEditing fixCommonSqlIssues parseSqlToSchema s) \<and>
      appliedSql (startEditing fixCommonSqlIssues parseSqlToSchema s) = appliedSql s \<and>
      editableSql (startEditing fixCommonSqlIssues parseSqlToSchema s) = editableSql s \<and>
      editableSql (cancelEdit (changeEditableSql fixCommonSqlIssues parseSqlToSchema newText
                     (startEditing fixCommonSqlIssues parseSqlToSchema s)))
        = appliedSql s \<and>
      nodes (cancelEdit (changeEditableSql fixCommonSqlIssues parseSqlToSchema newText
                     (startEditing fixCommonSqlIssues parseSqlToSchema s)))
        = nodes s)"
  by (auto simp add: cancelEdit_def startEditing_def changeEditableSql_def liveUpdateEffect_def)

theorem cancel_restores_applied_sql_witness:
  "\<not> isEditing cleanEditor \<and> \<not> liveEditMode cleanEditor \<and>
   startEditing (\<lambda>x. x) strictParser cleanEditor = cleanEditor\<lparr>isEditing := True\<rparr> \<and>
   editableSql (cancelEdit (changeEditableSql (\<lambda>x. x) strictParser brokenSql
                  (startEditing (\<lambda>x. x) strictParser cleanEditor)))
     = ''CREATE TABLE Users ();'' \<and>
   \<not> isEditing liveCleanEditor \<and> liveEditMode liveCleanEditor \<and>
   editableSql liveCleanEditor \<noteq> [] \<and>
   startEditing (\<lambda>x. x) strictParser liveCleanEditor
     = liveCleanEditor\<lparr>isEditing := True,
                        error := Some ''Failed to parse SQL: syntax error near orders''\<rparr> \<and>
   \<not> isEditing (cancelEdit sampleEditor) \<and>
   editableSql (cancelEdit sampleEditor) = ''CREATE TABLE Users ();'' \<and>
   nodes (cancelEdit sampleEditor) = [usersOld]"
proof -
  have e: "\<not> isEditing cleanEditor" "\<not> liveEditMode cleanEditor"
    "appliedSql cleanEditor = ''CREATE TABLE Users ();''"
    "appliedSql sampleEditor = ''CREATE TABLE Users ();''" "nodes sampleEditor = [usersOld]"
    "\<not> isEditing liveCleanEditor" "liveEditMode liveCleanEditor"
    "editableSql liveCleanEditor = ''CREATE TABLE Users ();''"
    by (simp_all add: cleanEditor_def sampleEditor_def liveCleanEditor_def)
  note T1 = cancel_restores_applied_sql [where s = cleanEditor and fixCommonSqlIssues = "\<lambda>x. x"
        and parseSqlToSchema = strictParser and newText = brokenSql]
  note T2 = cancel_restores_applied_sql [where s = liveCleanEditor and fixCommonSqlIssues = "\<lambda>x. x"
        and parseSqlToSchema = strictParser and newText = brokenSql]
  note T3 = cancel_restores_applied_sql [where s = sampleEditor and fixCommonSqlIssues = "\<lambda>x. x"
        and parseSqlToSchema = strictParser and newText = brokenSql]
  have a: "startEditing (\<lambda>x. x) strictParser cleanEditor = cleanEditor\<lparr>isEditing := True\<rparr>"
    using T1 e(1,2) by blast
  have b: "editableSql (cancelEdit (changeEditableSql (\<lambda>x. x) strictParser brokenSql
                  (startEditing (\<lambda>x. x) strictParser cleanEditor)))
             = ''CREATE TABLE Users ();''"
    using T1 e(1,2,3) by metis
  have "startEditing (\<lambda>x. x) strictParser liveCleanEditor
          = handleApplySqlChangesInternal (\<lambda>x. x) strictParser
              (liveCleanEditor\<lparr>isEditing := True\<rparr>) (editableSql liveCleanEditor) True"
    using T2 e(6,7,8) by simp
  then have c: "startEditing (\<lambda>x. x) strictParser liveCleanEditor
     = liveCleanEditor\<lparr>isEditing := True,
                        error := Some ''Failed to parse SQL: syntax error near orders''\<rparr>"
    using trim_clean
    by (simp add: e(8) handleApplySqlChangesInternal_def strictParser_def)
  have d: "\<not> isEditing (cancelEdit sampleEditor)"
    "editableSql (cancelEdit sampleEditor) = ''CREATE TABLE Users ();''"
    "nodes (cancelEdit sampleEditor) = [usersOld]"
    using T3 e(4,5) by (simp_all add: Let_def)
  show ?thesis using e a b c d by simp
qed

subsection \<open>Reconciling the parsed graph with the prior graph\<close>

lemma find_first: "\<forall>n\<in>set pre. \<not> P n \<Longrightarrow> P x \<Longrightarrow> List.find P (pre @ x # post) = Some x"
  by (induction pre) auto

lemma find_none: "\<forall>n\<in>set xs. \<not> P n \<Longrightarrow> List.find P xs = None"
  by (induction xs) auto

lemma preserve_schema_fields:
  "node_id (preserveNode olds newNode) = node_id newNode \<and>
   labelOf (preserveNode olds newNode) = labelOf newNode \<and>
   schemaOf (preserveNode olds newNode) = schemaOf newNode"
  by (simp add: preserveNode_def labelOf_def schemaOf_def emptyData_def
      split: option.splits)

lemma preserve_found:
  assumes "nodeToPreserve olds newNode = Some old"
  shows "(\<forall>p. position old = Some p \<longrightarrow>
            position (preserveNode olds newNode) = Some p \<and>
            style (preserveNode olds newNode) = style old \<and>
            colorOf (preserveNode olds newNode)
              = (case colorOf old of
                   None \<Rightarrow> colorOf newNode
                 | Some c \<Rightarrow> if c \<noteq> [] then Some c else colorOf newNode)) \<and>
         (position old = None \<longrightarrow> preserveNode olds newNode = newNode)"
  using assms
  by (auto simp add: preserveNode_def colorOf_def truthy_def split: option.splits)

lemma sameLabel_iff:
  "sameLabel newNode n \<longleftrightarrow>
     (\<exists>a b. labelOf n = Some a \<and> labelOf newNode = Some b \<and> a \<noteq> [] \<and> b \<noteq> [] \<and>
            toLowerCase a = toLowerCase b)"
  by (auto simp add: sameLabel_def truthy_def split: option.splits)

text \<open>
  The claim that every match copies the layout of the prior table fails in two cases that
  the code tests for. A prior table that has the id of the parsed table but no position
  gives nothing: the parsed table keeps its own style and colour. And two tables whose
  labels are both the empty text do not match by label: the parsed table keeps its own
  position.
\<close>

theorem reconcile_counterexample:
  "node_id unplacedOld = node_id sameIdParsed \<and>
   style unplacedOld = Some [(''width'', ''240px'')] \<and>
   colorOf unplacedOld = Some ''#ff0000'' \<and>
   preserveNode [unplacedOld] sameIdParsed = sameIdParsed \<and>
   style (preserveNode [unplacedOld] sameIdParsed) = None \<and>
   colorOf (preserveNode [unplacedOld] sameIdParsed) = None \<and>
   labelOf blankOld = Some [] \<and> labelOf blankParsed = Some [] \<and>
   position blankOld = Some (10, 20) \<and>
   preserveNode [blankOld] blankParsed = blankParsed \<and>
   position (preserveNode [blankOld] blankParsed) = Some (0, 0)"
  by (simp add: preserveNode_def nodeToPreserve_def sameLabel_def truthy_def labelOf_def
      colorOf_def unplacedOld_def sameIdParsed_def usersOld_def usersParsed_def
      blankOld_def blankParsed_def)

text \<open>
  Claim C4, as amended. For every table of the newly parsed graph, \<open>preserveNode\<close> keeps
  the id, the label and the columns of the new table. The prior table it matches is the
  first one with the same id; when no prior table has that id, it is the first one whose
  label and the new label are both present, both not empty and equal up to case. When the
  matched prior table has a position, the new table gets its position, its style and its
  colour (the new table's own colour when the prior one has none or an empty one), and
  nothing else changes. When the matched prior table has no position, or when no prior
  table matches by id or by label, the new table is passed through as parsed. In
  particular a prior table \<open>Users\<close> at \<open>(10, 20)\<close> and a parsed table \<open>users\<close> with
  another id give a table at \<open>(10, 20)\<close>.
\<close>

theorem reconcile_layout_only:
  "node_id (preserveNode olds newNode) = node_id newNode \<and>
   labelOf (preserveNode olds newNode) = labelOf newNode \<and>
   schemaOf (preserveNode olds newNode) = schemaOf newNode \<and>
   (olds = pre @ old # post \<and> (\<forall>n\<in>set pre. node_id n \<noteq> node_id newNode) \<and>
    node_id old = node_id newNode \<longrightarrow>
      (\<forall>p. position old = Some p \<longrightarrow>
         position (preserveNode olds newNode) = Some p \<and>
         style (preserveNode olds newNode) = style old \<and>
         colorOf (preserveNode olds newNode)
           = (case colorOf old of
                None \<Rightarrow> colorOf newNode
              | Some c \<Rightarrow> if c \<noteq> [] then Some c else colorOf newNode)) \<and>
      (position old = None \<longrightarrow> preserveNode olds newNode = newNode)) \<and>
   ((\<forall>n\<in>set olds. node_id n \<noteq> node_id newNode) \<and> olds = pre @ old # post \<and>
    (\<forall>n\<in>set pre. \<not> (\<exists>a b. labelOf n = Some a \<and> labelOf newNode = Some b \<and>
                              a \<noteq> [] \<and> b \<noteq> [] \<and> toLowerCase a = toLowerCase b)) \<and>
    (\<exists>a b. labelOf old = Some a \<and> labelOf newNode = Some b \<and>
           a \<noteq> [] \<and> b \<noteq> [] \<and> toLowerCase a = toLowerCase b) \<longrightarrow>
      (\<forall>p. position old = Some p \<longrightarrow>
         position (preserveNode olds newNode) = Some p \<and>
         style (preserveNode olds newNode) = style old \<and>
         colorOf (preserveNode olds newNode)
           = (case colorOf old of
                None \<Rightarrow> colorOf newNode
              | Some c \<Rightarrow> if c \<noteq> [] then Some c else colorOf newNode)) \<and>
      (position old = None \<longrightarrow> preserveNode olds newNode = newNode)) \<and>
   ((\<forall>n\<in>set olds. node_id n \<noteq> node_id newNode \<and>
        \<not> (\<exists>a b. labelOf n = Some a \<and> labelOf newNode = Some b \<and>
                  a \<noteq> [] \<and> b \<noteq> [] \<and> toLowerCase a = toLowerCase b)) \<longrightarrow>
      preserveNode olds newNode = newNode) \<and>
   (labelOf old = Some ''Users'' \<and> position old = Some (10, 20) \<and>
    labelOf newNode = Some ''users'' \<and> node_id newNode \<noteq> node_id old \<longrightarrow>
      position (preserveNode [old] newNode) = Some (10, 20))"
proof -
  have byId: "nodeToPreserve olds newNode = Some old"
    if h: "olds = pre @ old # post" "\<forall>n\<in>set pre. node_id n \<noteq> node_id newNode"
      "node_id old = node_id newNode"
  proof -
    have "List.find (\<lambda>n. node_id n = node_id newNode) olds = Some old"
      using h find_first [of pre "\<lambda>n. node_id n = node_id newNode" old post] by simp
    then show ?thesis by (simp add: nodeToPreserve_def)
  qed
  have byLabel: "nodeToPreserve olds newNode = Some old"
    if h: "\<forall>n\<in>set olds. node_id n \<noteq> node_id newNode" "olds = pre @ old # post"
      "\<forall>n\<in>set pre. \<not> sameLabel newNode n" "sameLabel newNode old"
  proof -
    have none: "List.find (\<lambda>n. node_id n = node_id newNode) olds = None"
      using h(1) by (intro find_none) simp
    have "List.find (sameLabel newNode) olds = Some old"
      using h(2,3,4) find_first [of pre "sameLabel newNode" old post] by simp
    with none show ?thesis by (simp add: nodeToPreserve_def)
  qed
  have noMatch: "preserveNode olds newNode = newNode"
    if h: "\<forall>n\<in>set olds. node_id n \<noteq> node_id newNode \<and> \<not> sameLabel newNode n"
  proof -
    have "List.find (\<lambda>n. node_id n = node_id newNode) olds = None"
      using h by (intro find_none) simp
    moreover have "List.find (sameLabel newNode) olds = None"
      using h by (intro find_none) simp
    ultimately show ?thesis by (simp add: preserveNode_def nodeToPreserve_def)
  qed
  have example: "position (preserveNode [old] newNode) = Some (10, 20)"
    if h: "labelOf old = Some ''Users''" "position old = Some (10, 20)"
      "labelOf newNode = Some ''users''" "node_id newNode \<noteq> node_id old"
  proof -
    have "toLowerCase ''Users'' = toLowerCase ''users''" by code_simp
    then have "sameLabel newNode old"
      using h(1,3) by (simp add: sameLabel_def truthy_def)
    then have "nodeToPreserve [old] newNode = Some old"
      using h(4) by (auto simp add: nodeToPreserve_def)
    then show ?thesis using h(2) by (simp add: preserveNode_def)
  qed
  show ?thesis
    apply (intro conjI impI)
    subgoal by (simp add: preserve_schema_fields)
    subgoal by (simp add: preserve_schema_fields)
    subgoal by (simp add: preserve_schema_fields)
    subgoal using preserve_found [OF byId] by blast
    subgoal using preserve_found [OF byId] by blast
    subgoal using preserve_found [OF byLabel] unfolding sameLabel_iff by blast
    subgoal using preserve_found [OF byLabel] unfolding sameLabel_iff by blast
    subgoal using noMatch unfolding sameLabel_iff by blast
    subgoal using example by blast
    done
qed

theorem reconcile_layout_only_witness:
  "position (preserveNode [usersOld] sameIdParsed) = Some (10, 20) \<and>
   style (preserveNode [usersOld] sameIdParsed) = Some [(''width'', ''240px'')] \<and>
   colorOf (preserveNode [usersOld] sameIdParsed) = Some ''#ff0000'' \<and>
   position (preserveNode [usersOld] usersParsed) = Some (10, 20) \<and>
   style (preserveNode [usersOld] usersParsed) = Some [(''width'', ''240px'')] \<and>
   schemaOf (preserveNode [usersOld] usersParsed)
     = Some [sampleColumn ''id'' ''uuid'', sampleColumn ''email'' ''varchar''] \<and>
   labelOf (preserveNode [usersOld] usersParsed) = Some ''users'' \<and>
   preserveNode [usersOld] ordersParsed = ordersParsed \<and>
   preserveNode [unplacedOld] sameIdParsed = sameIdParsed"
proof -
  have f: "labelOf usersOld = Some ''Users''" "position usersOld = Some (10, 20)"
    "labelOf usersParsed = Some ''users''" "node_id usersParsed \<noteq> node_id usersOld"
    "style usersOld = Some [(''width'', ''240px'')]" "colorOf usersOld = Some ''#ff0000''"
    "schemaOf usersParsed = Some [sampleColumn ''id'' ''uuid'', sampleColumn ''email'' ''varchar'']"
    "node_id usersOld = node_id sameIdParsed" "node_id unplacedOld = node_id sameIdParsed"
    "position unplacedOld = None" "node_id usersOld \<noteq> node_id ordersParsed"
    "labelOf ordersParsed = Some ''orders''"
    by (simp_all add: usersOld_def usersParsed_def sameIdParsed_def unplacedOld_def
        ordersParsed_def labelOf_def colorOf_def schemaOf_def)
  have l: "toLowerCase ''Users'' = toLowerCase ''users''"
    "toLowerCase ''Users'' \<noteq> toLowerCase ''orders''" by code_simp+
  have byId: "position (preserveNode [usersOld] sameIdParsed) = Some (10, 20) \<and>
      style (preserveNode [usersOld] sameIdParsed) = Some [(''width'', ''240px'')] \<and>
      colorOf (preserveNode [usersOld] sameIdParsed) = Some ''#ff0000''"
    using f reconcile_layout_only [where olds = "[usersOld]" and newNode = sameIdParsed
        and pre = "[]" and old = usersOld and post = "[]"]
    by simp
  have byLabel: "position (preserveNode [usersOld] usersParsed) = Some (10, 20) \<and>
      style (preserveNode [usersOld] usersParsed) = Some [(''width'', ''240px'')] \<and>
      schemaOf (preserveNode [usersOld] usersParsed)
        = Some [sampleColumn ''id'' ''uuid'', sampleColumn ''email'' ''varchar''] \<and>
      labelOf (preserveNode [usersOld] usersParsed) = Some ''users''"
    using f l reconcile_layout_only [where olds = "[usersOld]" and newNode = usersParsed
        and pre = "[]" and old = usersOld and post = "[]"]
    by simp
  have noMatch: "preserveNode [usersOld] ordersParsed = ordersParsed"
    using f l reconcile_layout_only [where olds = "[usersOld]" and newNode = ordersParsed
        and pre = "[]" and old = usersOld and post = "[]"]
    by simp
  have unplaced: "preserveNode [unplacedOld] sameIdParsed = sameIdParsed"
    using f reconcile_layout_only [where olds = "[unplacedOld]" and newNode = sameIdParsed
        and pre = "[]" and old = unplacedOld and post = "[]"]
    by simp
  show ?thesis using byId byLabel noMatch unplaced by simp
qed

subsection \<open>Quoting two-word table names\<close>

text \<open>
  Claim C8. The quoting pass is to wrap two-word table names in double quotes and to
  leave a clause alone whose table name is one word. On this input the code does
  otherwise: the \<open>ALTER TABLE\<close> pattern ends in whitespace where the two sibling
  patterns end in an opening parenthesis, so on \<open>ALTER TABLE orders ADD CONSTRAINT ...\<close>
  it takes the table name and the keyword \<open>ADD\<close> for a two-word name and quotes them
  together. The \<open>CREATE TABLE\<close> and \<open>REFERENCES\<close> clauses of a one-word table stay as
  they are.
\<close>

theorem quoting_rewrites_single_word_alter:
  \<open>ensureTableNamesAreQuoted alterOrders
     = ''ALTER TABLE "orders ADD" CONSTRAINT fk1 FOREIGN KEY (id) REFERENCES users(id);'' \<and>
   ensureTableNamesAreQuoted alterOrders \<noteq> alterOrders \<and>
   ensureTableNamesAreQuoted ''CREATE TABLE orders (id uuid REFERENCES users (id));''
     = ''CREATE TABLE orders (id uuid REFERENCES users (id));''\<close>
  by code_simp

subsection \<open>Removing duplicate foreign-key statements\<close>

text \<open>
  Claim C3. Of two identical \<open>ALTER TABLE\<close> lines in a foreign-key section the
  de-duplication pass is to keep one. On this input the code keeps both: the split at
  comments makes the header comment a section of its own, and the statements under it
  form the next section, which does not contain the header text and is returned as it is.
\<close>

theorem dedup_skips_commented_section:
  "splitRegex commentRegex fkSection = [[], fkHeader, CHR 0x0A # alterOrders @ CHR 0x0A # alterOrders] \<and>
   removeDuplicateAlterTableStatements fkSection = fkSection \<and>
   splitLines (removeDuplicateAlterTableStatements fkSection) = [fkHeader, alterOrders, alterOrders]"
  by code_simp

subsection \<open>Renaming a column in the sidebar\<close>

text \<open>
  Claim C9. A rename to a title that another column holds is to leave the titles of the
  table pairwise distinct. On this input the code does not: \<open>updateColumn\<close> appends the
  index to the new title and does not check the result, so in a table with the columns
  \<open>a\<close>, \<open>b\<close> and \<open>a_1\<close>, renaming the second column to \<open>a\<close> gives it the title
  \<open>a_1\<close>, which the third column holds.
\<close>

theorem rename_collides_with_suffixed_title:
  "schemaOf threeColumns
     = Some [sampleColumn ''a'' ''uuid'', sampleColumn ''b'' ''text'', sampleColumn ''a_1'' ''text''] \<and>
   titlesOf (updateColumn (Some threeColumns) 1 FTitle ''a'') = [Some ''a'', Some ''a_1'', Some ''a_1''] \<and>
   \<not> distinct (titlesOf (updateColumn (Some threeColumns) 1 FTitle ''a''))"
  by code_simp

subsection \<open>Running the repair passes twice\<close>

lemma quote_shiftingText: "ensureTableNamesAreQuoted shiftingText = shiftingText"
  by code_simp

lemma dedup_shiftingText: "removeDuplicateAlterTableStatements shiftingText = shiftedOnce"
  by code_simp

lemma quote_shiftedOnce: "ensureTableNamesAreQuoted shiftedOnce = shiftedOnce"
  by code_simp

lemma dedup_shiftedOnce: "removeDuplicateAlterTableStatements shiftedOnce = shiftedTwice"
  by code_simp

lemma shifted_differ: "shiftedTwice \<noteq> shiftedOnce"
  by code_simp

lemma quote_mergingText: "ensureTableNamesAreQuoted mergingText = mergingText"
  by code_simp

lemma dedup_mergingText: "removeDuplicateAlterTableStatements mergingText = mergedOnce"
  by code_simp

lemma quote_mergedOnce: "ensureTableNamesAreQuoted mergedOnce = mergedTwice"
  by code_simp

lemma dedup_mergedTwice: "removeDuplicateAlterTableStatements mergedTwice = mergedTwice"
  by code_simp

lemma merged_differ: "mergedTwice \<noteq> mergedOnce"
  by code_simp

text \<open>
  Two runs of repair on texts that carry the marker of the foreign-key section in a block
  comment, for a \<open>fixCommonSqlIssues\<close> that leaves the texts of both runs as they are.
  In the first text the last of three equal statements is dropped, which joins the comment
  after it to the line before; the comment then begins earlier, the line before loses its
  tail and is a duplicate in the second run. In the second text the dropped duplicate
  stood between \<open>ALTER TABLE\<close> and a two-word table name, which the quoting pass finds
  only in the second run. What repair does with these texts under another
  \<open>fixCommonSqlIssues\<close> depends on that function.
\<close>

lemma repair_twice_shifting:
  assumes "fixCommonSqlIssues shiftingText = shiftingText"
    and "fixCommonSqlIssues shiftedOnce = shiftedOnce"
  shows "repair fixCommonSqlIssues shiftingText = shiftedOnce \<and>
         repair fixCommonSqlIssues (repair fixCommonSqlIssues shiftingText) = shiftedTwice"
  using assms
  by (simp add: repair_def quote_shiftingText dedup_shiftingText quote_shiftedOnce
      dedup_shiftedOnce)

lemma repair_twice_merging:
  assumes "fixCommonSqlIssues mergingText = mergingText"
    and "fixCommonSqlIssues mergedTwice = mergedTwice"
  shows "repair fixCommonSqlIssues mergingText = mergedOnce \<and>
         repair fixCommonSqlIssues (repair fixCommonSqlIssues mergingText) = mergedTwice"
  using assms
  by (simp add: repair_def quote_mergingText dedup_mergingText quote_mergedOnce
      dedup_mergedTwice)

lemma runs_nonempty: "runs k s \<noteq> []"
  by (induction s) auto

lemma butlast_runs_empty: "butlast (runs k s) = [] \<longleftrightarrow> (case s of [] \<Rightarrow> True | c # cs \<Rightarrow> \<not> inClass k c)"
  by (cases s) (auto simp: runs_nonempty butlast_append)

lemma matchHere_comment: "matchHere commentRegex s \<noteq> None \<longleftrightarrow> commentStart s"
proof -
  have "matchHere commentRegex s \<noteq> None \<longleftrightarrow>
        (\<exists>r. litMatch False ''-- '' s = Some r \<and> butlast (runs NotNewline r) \<noteq> [])"
    by (auto simp add: matchHere_def commentRegex_def split: list.splits option.splits)
  also have "\<dots> \<longleftrightarrow> commentStart s"
    by (cases s rule: commentStart.cases)
       (auto simp add: chEq_def butlast_runs_empty split: list.splits)
  finally show ?thesis .
qed

lemma hasComment_iff: "hasComment (c # cs) = (commentStart (c # cs) \<or> hasComment cs)"
  using matchHere_comment [of "c # cs"] by simp

lemma splitAux_Nil: "splitAux rx cur [] = [cur]"
  by (subst splitAux.simps) simp

lemma splitAux_no_match:
  "matchHere rx (c # cs) = None \<Longrightarrow> splitAux rx cur (c # cs) = splitAux rx (cur @ [c]) cs"
  by (subst splitAux.simps) simp

lemma splitAux_no_comment: "\<not> hasComment s \<Longrightarrow> splitAux commentRegex cur s = [cur @ s]"
proof (induction s arbitrary: cur)
  case Nil
  show ?case by (simp add: splitAux_Nil)
next
  case (Cons c cs)
  have m: "matchHere commentRegex (c # cs) = None" and n: "\<not> hasComment cs"
    using Cons.prems by (cases "matchHere commentRegex (c # cs)"; simp)+
  show ?case using Cons.IH [OF n, of "cur @ [c]"] by (simp add: splitAux_no_match [OF m])
qed

lemma commentStart_append_nl: "commentStart (a @ CHR 0x0A # b) = commentStart a"
proof (cases a)
  case Nil then show ?thesis by (cases b rule: commentStart.cases) auto
next
  case (Cons x1 a1)
  show ?thesis
  proof (cases a1)
    case Nil with Cons show ?thesis by (cases b rule: commentStart.cases) auto
  next
    case c2: (Cons x2 a2)
    show ?thesis
    proof (cases a2)
      case Nil with Cons c2 show ?thesis by (cases b) auto
    next
      case c3: (Cons x3 a3)
      show ?thesis
      proof (cases a3)
        case Nil with Cons c2 c3 show ?thesis by simp
      next
        case c4: (Cons x4 a4)
        with Cons c2 c3 show ?thesis by simp
      qed
    qed
  qed
qed

lemma hasComment_append_nl: "hasComment (a @ CHR 0x0A # b) = (hasComment a \<or> hasComment b)"
proof (induction a)
  case Nil
  have "\<not> commentStart (CHR 0x0A # b)" by (cases b rule: commentStart.cases) auto
  then show ?case by (simp add: hasComment_iff del: hasComment.simps(2))
next
  case (Cons c a)
  have "commentStart (c # a @ CHR 0x0A # b) = commentStart (c # a)"
    using commentStart_append_nl [of "c # a" b] by simp
  with Cons show ?case by (auto simp add: hasComment_iff simp del: hasComment.simps(2))
qed

lemma hasComment_joinLines: "hasComment (joinLines ls) = (\<exists>l\<in>set ls. hasComment l)"
proof (induction ls rule: joinLines.induct)
  case (3 l v va)
  then show ?case by (simp add: hasComment_append_nl del: hasComment.simps(2))
qed simp_all

lemma splitLinesAux_nonempty: "splitLinesAux cur s \<noteq> []"
  by (induction s arbitrary: cur) auto

lemma joinLines_splitLinesAux: "joinLines (splitLinesAux cur s) = cur @ s"
proof (induction s arbitrary: cur)
  case (Cons c cs)
  have ne: "splitLinesAux [] cs \<noteq> []" by (rule splitLinesAux_nonempty)
  show ?case
  proof (cases "c = CHR 0x0A")
    case True
    obtain l ls where "splitLinesAux [] cs = l # ls" using ne by (cases "splitLinesAux [] cs") auto
    with Cons.IH [of "[]"] True show ?thesis by simp
  next
    case False with Cons.IH [of "cur @ [c]"] show ?thesis by simp
  qed
qed simp

lemma joinLines_splitLines: "joinLines (splitLines s) = s"
  by (simp add: splitLines_def joinLines_splitLinesAux)

lemma splitLinesAux_no_nl:
  "CHR 0x0A \<notin> set cur \<Longrightarrow> \<forall>l\<in>set (splitLinesAux cur s). CHR 0x0A \<notin> set l"
proof (induction s arbitrary: cur)
  case Nil then show ?case by simp
next
  case (Cons c cs)
  show ?case
  proof (cases "c = CHR 0x0A")
    case True
    with Cons.prems Cons.IH [of "[]"] show ?thesis by simp
  next
    case False
    with Cons.prems Cons.IH [of "cur @ [c]"] show ?thesis by simp
  qed
qed

lemma splitLinesAux_line: "CHR 0x0A \<notin> set a \<Longrightarrow> splitLinesAux cur a = [cur @ a]"
  by (induction a arbitrary: cur) auto

lemma splitLinesAux_append_nl:
  "CHR 0x0A \<notin> set a \<Longrightarrow> splitLinesAux cur (a @ CHR 0x0A # b) = (cur @ a) # splitLinesAux [] b"
  by (induction a arbitrary: cur) auto

lemma splitLines_joinLines:
  "ls \<noteq> [] \<Longrightarrow> \<forall>l\<in>set ls. CHR 0x0A \<notin> set l \<Longrightarrow> splitLines (joinLines ls) = ls"
proof (induction ls rule: joinLines.induct)
  case 1 then show ?case by simp
next
  case (2 l) then show ?case by (simp add: splitLines_def splitLinesAux_line)
next
  case (3 l v va)
  then show ?case by (simp add: splitLines_def splitLinesAux_append_nl)
qed

lemma dedupLines_subset: "set (snd (dedupLines seen ls)) \<subseteq> set ls"
  by (induction ls arbitrary: seen) (auto simp add: case_prod_beta Let_def)

lemma dedupLines_head: "snd (dedupLines [] (l # ls)) \<noteq> []"
  by (simp add: case_prod_beta Let_def)

lemma dedupLines_again:
  "set seen0 \<subseteq> set seen \<Longrightarrow>
   snd (dedupLines seen0 (snd (dedupLines seen ls))) = snd (dedupLines seen ls)"
proof (induction ls arbitrary: seen seen0)
  case Nil show ?case by simp
next
  case (Cons line ls)
  show ?case
  proof (cases "isAlterConstraintLine line")
    case False
    with Cons.IH [OF Cons.prems] show ?thesis by (simp add: case_prod_beta Let_def)
  next
    case True
    show ?thesis
    proof (cases "trim line \<in> set seen")
      case t: True
      with True Cons.IH [OF Cons.prems] show ?thesis by simp
    next
      case f: False
      with Cons.prems have n: "trim line \<notin> set seen0" by auto
      have s: "set (seen0 @ [trim line]) \<subseteq> set (seen @ [trim line])" using Cons.prems by auto
      from True f n Cons.IH [OF s] show ?thesis by (simp add: case_prod_beta Let_def)
    qed
  qed
qed

lemma removeDuplicate_no_comment:
  "\<not> hasComment sql \<Longrightarrow>
   removeDuplicateAlterTableStatements sql
     = (if includesStr sql ''Foreign Key Constraints''
        then joinLines (snd (dedupLines [] (splitLines sql))) else sql)"
  by (simp add: removeDuplicateAlterTableStatements_def splitRegex_def splitAux_no_comment
      processSection_def case_prod_beta Let_def)

text \<open>
  The de-duplication pass is idempotent on every text in which the comment pattern
  (\<open>-- \<close> followed by a character other than a line feed) does not occur.
\<close>

lemma dedup_idempotent_without_comments:
  assumes "\<not> hasComment sql"
  shows "removeDuplicateAlterTableStatements (removeDuplicateAlterTableStatements sql)
           = removeDuplicateAlterTableStatements sql"
proof (cases "includesStr sql ''Foreign Key Constraints''")
  case False
  with assms show ?thesis by (simp add: removeDuplicate_no_comment)
next
  case True
  define kept where "kept = snd (dedupLines [] (splitLines sql))"
  have out: "removeDuplicateAlterTableStatements sql = joinLines kept"
    using assms True by (simp add: removeDuplicate_no_comment kept_def)
  have sub: "set kept \<subseteq> set (splitLines sql)"
    unfolding kept_def by (rule dedupLines_subset)
  have "\<not> hasComment (joinLines (splitLines sql))"
    using assms by (simp add: joinLines_splitLines)
  then have "\<forall>l\<in>set (splitLines sql). \<not> hasComment l"
    by (simp add: hasComment_joinLines)
  with sub have nc: "\<not> hasComment (joinLines kept)"
    by (auto simp add: hasComment_joinLines)
  have nonl: "\<forall>l\<in>set kept. CHR 0x0A \<notin> set l"
    using sub splitLinesAux_no_nl [of "[]" sql] by (auto simp add: splitLines_def)
  obtain l ls where ls: "splitLines sql = l # ls"
    using splitLinesAux_nonempty [of "[]" sql] by (cases "splitLines sql") (auto simp: splitLines_def)
  have ne: "kept \<noteq> []" unfolding kept_def ls by (rule dedupLines_head)
  have roundtrip: "splitLines (joinLines kept) = kept"
    using ne nonl by (rule splitLines_joinLines)
  have again: "snd (dedupLines [] kept) = kept"
    unfolding kept_def using dedupLines_again [of "[]" "[]" "splitLines sql"] by simp
  have "removeDuplicateAlterTableStatements (joinLines kept) = joinLines kept"
    using nc by (simp add: removeDuplicate_no_comment roundtrip again)
  then show ?thesis by (simp add: out)
qed

end
